theory Spec2Isabelle
  imports Complex_Main
begin

section \<open>Data model (src/lib/database.ts)\<close>

text \<open>
  The TypeScript interfaces become records with the source's field names. Several
  interfaces share field names (\<open>id\<close>, \<open>quantity\<close>, \<open>unitPrice\<close>, \<open>items\<close>, ...), so
  selectors are written qualified (\<open>InventoryItem.quantity\<close>, \<open>SaleItem.quantity\<close>).

  JavaScript numbers are IEEE-754 doubles. Stock quantities are \<open>int\<close> (the column is
  \<open>INTEGER\<close> and the page parses the quantity field with \<open>parseInt\<close>). Money is \<open>rat\<close>:
  the model adds and multiplies money exactly, where the program rounds every sum and
  product to the nearest double (\<open>0.1 + 0.2\<close> is \<open>0.30000000000000004\<close> there). A money
  value of the model is therefore the program's value only as long as no operation
  rounded, and nothing below asserts that a stored total is an exact sum or product. The
  timestamp columns (\<open>date_added\<close>, \<open>updated_at\<close>, \<open>created_at\<close>) are filled by the clock
  and are left out. Strings are lists of 8-bit code units.
\<close>

record InventoryItem =
  id :: string
  name :: string
  category :: string
  unitPrice :: rat
  quantity :: int
  lowStockThreshold :: int

record SaleItem =
  itemId :: string
  itemName :: string
  quantity :: int
  unitPrice :: rat
  total :: rat

record Sale =
  id :: string
  items :: "SaleItem list"
  totalAmount :: rat
  sellerName :: string
  buyerName :: string

record Receipt =
  id :: string
  saleId :: string
  businessName :: string
  businessAddress :: string
  items :: "SaleItem list"
  totalAmount :: rat
  sellerName :: string
  buyerName :: string

record AppSettings =
  id :: string
  pinHash :: "string option"
  businessName :: string
  businessAddress :: string

text \<open>\<open>interface CartItem extends SaleItem { availableQty: number }\<close> (the sale page).\<close>

record CartItem = SaleItem +
  availableQty :: int

section \<open>The store\<close>

text \<open>
  The three tables the sale engine touches. \<open>inventory.id\<close> is the primary key and every
  inventory query of the engine is \<open>.eq('id', ...)\<close>, so the inventory table is a map from
  the key to the row. Sales and receipts are append-only lists of rows; their primary key
  and the foreign key \<open>receipts.sale_id REFERENCES sales(id)\<close> of the migration are checked
  at insertion. The store is assumed reachable: a network fault, which would make any
  call throw, is not modelled.
\<close>

record db =
  inventory :: "string \<rightharpoonup> InventoryItem"
  sales :: "Sale list"
  receipts :: "Receipt list"

datatype dberror = PrimaryKeyViolation | ForeignKeyViolation | MultipleRows

text \<open>\<open>inventoryDB.getById\<close>: \<open>select('*').eq('id', id).maybeSingle()\<close>.\<close>

definition getById :: "db \<Rightarrow> string \<Rightarrow> InventoryItem option" where
  "getById d iid = inventory d iid"

text \<open>
  \<open>inventoryDB.deductStock\<close>: read the item; if it is missing or holds fewer units than
  asked, return \<open>undefined\<close> (here \<open>None\<close>) and write nothing; otherwise overwrite the
  quantity with the difference computed from the value that was read, and return the
  updated row.
\<close>

definition deductStock :: "db \<Rightarrow> string \<Rightarrow> int \<Rightarrow> InventoryItem option \<times> db" where
  "deductStock d iid qty =
     (case getById d iid of
        None \<Rightarrow> (None, d)
      | Some item \<Rightarrow>
          if InventoryItem.quantity item < qty then (None, d)
          else
            (let row = item\<lparr>InventoryItem.quantity := InventoryItem.quantity item - qty\<rparr>
             in (Some row, d\<lparr>inventory := (inventory d)(iid \<mapsto> row)\<rparr>)))"

text \<open>
  \<open>salesDB.add\<close>: insert a row under a freshly generated id and return it. The id comes
  from \<open>generateId()\<close> (clock and random number), so it is an argument here; an id that
  is already in the table violates the primary key and the call throws.
\<close>

definition salesDB_add ::
  "db \<Rightarrow> string \<Rightarrow> SaleItem list \<Rightarrow> rat \<Rightarrow> string \<Rightarrow> string \<Rightarrow> dberror + (Sale \<times> db)" where
  "salesDB_add d newId its amount seller buyer =
     (if newId \<in> set (map Sale.id (sales d)) then Inl PrimaryKeyViolation
      else
        (let row = \<lparr>Sale.id = newId, Sale.items = its, Sale.totalAmount = amount,
                    Sale.sellerName = seller, Sale.buyerName = buyer\<rparr>
         in Inr (row, d\<lparr>sales := sales d @ [row]\<rparr>)))"

text \<open>The default of column \<open>receipts.business_address\<close> in the migration.\<close>

definition receipts_business_address_default :: string where
  "receipts_business_address_default = ''56 Iwofe Road, Rumuopirikom, PHC''"

text \<open>
  \<open>receiptsDB.add\<close>: insert a row under a freshly generated id and return it. Nothing is
  looked up first. A field the caller leaves \<open>undefined\<close> (\<open>None\<close>) is dropped from the
  request, and the column default applies.
\<close>

definition receiptsDB_add ::
  "db \<Rightarrow> string \<Rightarrow> string \<Rightarrow> string \<Rightarrow> string option \<Rightarrow> SaleItem list \<Rightarrow> rat \<Rightarrow> string \<Rightarrow> string
     \<Rightarrow> dberror + (Receipt \<times> db)" where
  "receiptsDB_add d newId sid bname baddr its amount seller buyer =
     (if newId \<in> set (map Receipt.id (receipts d)) then Inl PrimaryKeyViolation
      else if sid \<notin> set (map Sale.id (sales d)) then Inl ForeignKeyViolation
      else
        (let row = \<lparr>Receipt.id = newId, saleId = sid, Receipt.businessName = bname,
                    Receipt.businessAddress =
                      (case baddr of None \<Rightarrow> receipts_business_address_default | Some a \<Rightarrow> a),
                    Receipt.items = its, Receipt.totalAmount = amount,
                    Receipt.sellerName = seller, Receipt.buyerName = buyer\<rparr>
         in Inr (row, d\<lparr>receipts := receipts d @ [row]\<rparr>)))"

text \<open>
  \<open>receiptsDB.getBySaleId\<close>: \<open>select('*').eq('sale_id', saleId).maybeSingle()\<close>: no row
  gives \<open>undefined\<close>, one row gives that row, several rows make the query fail.
\<close>

definition getBySaleId :: "db \<Rightarrow> string \<Rightarrow> dberror + Receipt option" where
  "getBySaleId d sid =
     (case filter (\<lambda>r. saleId r = sid) (receipts d) of
        [] \<Rightarrow> Inr None
      | [r] \<Rightarrow> Inr (Some r)
      | _ \<Rightarrow> Inl MultipleRows)"

section \<open>Strings\<close>

text \<open>
  \<open>String.prototype.trim\<close> removes white space and line terminators from both ends. Among
  the code units below 256 these are TAB, LF, VT, FF, CR, SPACE and NBSP.
\<close>

definition isWhiteSpace :: "char \<Rightarrow> bool" where
  "isWhiteSpace c = (of_char c \<in> {9, 10, 11, 12, 13, 32, 160 :: nat})"

definition trim :: "string \<Rightarrow> string" where
  "trim s = rev (dropWhile isWhiteSpace (rev (dropWhile isWhiteSpace s)))"

section \<open>The cart (sale page)\<close>

text \<open>
  The messages the page shows. \<open>InsufficientStockToast\<close> is the cart's 'Insufficient
  Stock'; \<open>FailedToDeductStock n\<close> is 'Failed to deduct stock for n', shown when
  \<open>deductStock\<close> returned \<open>undefined\<close> during checkout; \<open>FailedToCompleteSale\<close> is the
  message of the \<open>catch\<close> block.
\<close>

datatype toast =
    EmptyCart
  | SellerNameRequired
  | BuyerNameRequired
  | FailedToDeductStock string
  | FailedToCompleteSale
  | InsufficientStockToast
  | AddedToCart

text \<open>\<open>Array.prototype.findIndex\<close>; \<open>None\<close> stands for \<open>-1\<close>.\<close>

fun findIndex :: "('a \<Rightarrow> bool) \<Rightarrow> 'a list \<Rightarrow> nat option" where
  "findIndex P [] = None"
| "findIndex P (x # xs) = (if P x then Some 0 else map_option Suc (findIndex P xs))"

text \<open>\<open>const totalAmount = cart.reduce((sum, item) => sum + item.total, 0)\<close>.\<close>

definition totalAmount_of :: "CartItem list \<Rightarrow> rat" where
  "totalAmount_of cart = foldl (\<lambda>sum item. sum + total item) 0 cart"

text \<open>
  \<open>addToCart\<close>, with the selected inventory item (\<open>items.find(i => i.id ===
  selectedItemId)\<close>, possibly \<open>undefined\<close>) and the quantity field as arguments. The result
  is the new cart and the message shown, if any.
\<close>

definition addToCart ::
  "CartItem list \<Rightarrow> InventoryItem option \<Rightarrow> int \<Rightarrow> CartItem list \<times> toast option" where
  "addToCart cart selectedItem qty =
     (case selectedItem of
        None \<Rightarrow> (cart, None)
      | Some sel \<Rightarrow>
          if qty \<le> 0 then (cart, None)
          else
            (case findIndex (\<lambda>c. itemId c = InventoryItem.id sel) cart of
               Some existingIndex \<Rightarrow>
                 (let existing = cart ! existingIndex;
                      newQty = SaleItem.quantity existing + qty
                  in if newQty > availableQty existing then (cart, Some InsufficientStockToast)
                     else
                       (cart[existingIndex :=
                               existing\<lparr>SaleItem.quantity := newQty,
                                        total := of_int newQty * SaleItem.unitPrice existing\<rparr>],
                        Some AddedToCart))
             | None \<Rightarrow>
                 if qty > InventoryItem.quantity sel then (cart, Some InsufficientStockToast)
                 else
                   (cart @
                      [\<lparr>itemId = InventoryItem.id sel, itemName = name sel,
                        SaleItem.quantity = qty, SaleItem.unitPrice = InventoryItem.unitPrice sel,
                        total = of_int qty * InventoryItem.unitPrice sel,
                        availableQty = InventoryItem.quantity sel\<rparr>],
                    Some AddedToCart)))"

text \<open>\<open>removeFromCart\<close>: \<open>cart.filter((_, i) => i !== index)\<close>.\<close>

definition removeFromCart :: "CartItem list \<Rightarrow> nat \<Rightarrow> CartItem list" where
  "removeFromCart cart index = take index cart @ drop (Suc index) cart"

text \<open>
  \<open>updateCartQuantity\<close>. The page calls it with the index of a displayed line; on an index
  out of range \<open>cart[index]\<close> is \<open>undefined\<close> and reading its quantity throws, which is
  \<open>None\<close> here.
\<close>

definition updateCartQuantity ::
  "CartItem list \<Rightarrow> nat \<Rightarrow> int \<Rightarrow> (CartItem list \<times> toast option) option" where
  "updateCartQuantity cart index delta =
     (if index \<ge> length cart then None
      else
        (let item = cart ! index;
             newQty = SaleItem.quantity item + delta
         in if newQty \<le> 0 then Some (removeFromCart cart index, None)
            else if newQty > availableQty item then Some (cart, Some InsufficientStockToast)
            else
              Some (cart[index := item\<lparr>SaleItem.quantity := newQty,
                                      total := of_int newQty * SaleItem.unitPrice item\<rparr>],
                    None)))"

text \<open>The carts a session can build, starting from the empty cart.\<close>

inductive reachable_cart :: "CartItem list \<Rightarrow> bool" where
  empty: "reachable_cart []"
| add: "reachable_cart cart \<Longrightarrow> reachable_cart (fst (addToCart cart selectedItem qty))"
| update: "reachable_cart cart \<Longrightarrow> updateCartQuantity cart index delta = Some (cart', t)
             \<Longrightarrow> reachable_cart cart'"
| remove: "reachable_cart cart \<Longrightarrow> reachable_cart (removeFromCart cart index)"

section \<open>Checkout (handleSubmit)\<close>

text \<open>
  The loop \<open>for (const cartItem of cart)\<close>: deduct each line in cart order and stop at the
  first line whose deduction returns \<open>undefined\<close>. The result names that line, if any, and
  gives the store as the loop left it. (The inventory context's \<open>deductStock\<close> wraps the
  store call and then reloads the page's item list; it writes nothing more.)
\<close>

fun deductAll :: "db \<Rightarrow> CartItem list \<Rightarrow> CartItem option \<times> db" where
  "deductAll d [] = (None, d)"
| "deductAll d (cartItem # rest) =
     (case deductStock d (itemId cartItem) (SaleItem.quantity cartItem) of
        (None, d') \<Rightarrow> (Some cartItem, d')
      | (Some _, d') \<Rightarrow> deductAll d' rest)"

text \<open>\<open>cart.map(({ itemId, itemName, quantity, unitPrice, total }) => ({ ... }))\<close>.\<close>

definition saleItems_of :: "CartItem list \<Rightarrow> SaleItem list" where
  "saleItems_of cart = map SaleItem.truncate cart"

text \<open>\<open>settings?.businessName || 'Keke Spare Parts'\<close>: the empty string is falsy.\<close>

definition businessName_or_fallback :: "AppSettings option \<Rightarrow> string" where
  "businessName_or_fallback settings =
     (case settings of
        None \<Rightarrow> ''Keke Spare Parts''
      | Some s \<Rightarrow> if AppSettings.businessName s = [] then ''Keke Spare Parts''
                  else AppSettings.businessName s)"

text \<open>
  \<open>handleSubmit\<close>. Arguments: the store, the settings held by the page, the two ids that
  \<open>generateId()\<close> will produce, the cart and the two name fields. The result is either the
  error message shown (\<open>Inl\<close>) or the sale and receipt rows created (\<open>Inr\<close>, the page then
  opens the receipt), together with the store as the attempt left it. An exception of a
  store call lands in the \<open>catch\<close> block, which shows a message and restores nothing. The
  receipt is built without a \<open>businessAddress\<close> field.
\<close>

definition handleSubmit ::
  "db \<Rightarrow> AppSettings option \<Rightarrow> string \<Rightarrow> string \<Rightarrow> CartItem list \<Rightarrow> string \<Rightarrow> string
     \<Rightarrow> (toast + (Sale \<times> Receipt)) \<times> db" where
  "handleSubmit d settings newSaleId newReceiptId cart seller buyer =
     (if cart = [] then (Inl EmptyCart, d)
      else if trim seller = [] then (Inl SellerNameRequired, d)
      else if trim buyer = [] then (Inl BuyerNameRequired, d)
      else
        (case deductAll d cart of
           (Some cartItem, d1) \<Rightarrow> (Inl (FailedToDeductStock (itemName cartItem)), d1)
         | (None, d1) \<Rightarrow>
             (case salesDB_add d1 newSaleId (saleItems_of cart) (totalAmount_of cart)
                     (trim seller) (trim buyer) of
                Inl _ \<Rightarrow> (Inl FailedToCompleteSale, d1)
              | Inr (sale, d2) \<Rightarrow>
                  (case receiptsDB_add d2 newReceiptId (Sale.id sale)
                          (businessName_or_fallback settings) None
                          (saleItems_of cart) (totalAmount_of cart)
                          (trim seller) (trim buyer) of
                     Inl _ \<Rightarrow> (Inl FailedToCompleteSale, d2)
                   | Inr (receipt, d3) \<Rightarrow> (Inr (sale, receipt), d3)))))"

section \<open>Two checkouts against one item\<close>

text \<open>
  \<open>inventoryDB.deductStock\<close> awaits the store twice: once for the read, once for the
  write. Another checkout, on this device or another, can run between the two. A call
  in flight is therefore in one of these states: not started; holding the item it read
  (the stock check passed, the write is still to come); returned, with the updated row or
  with \<open>undefined\<close>; or thrown (the write's \<open>.single()\<close> found no row).
\<close>

datatype task = Pending | Holding InventoryItem | Returned "InventoryItem option" | Threw

text \<open>
  One store round trip of a call \<open>deductStock(iid, qty)\<close>. The write sets the quantity
  column to the difference computed from the item that was read earlier, whatever the row
  holds by now.
\<close>

definition task_step :: "string \<Rightarrow> int \<Rightarrow> task \<Rightarrow> db \<Rightarrow> task \<times> db" where
  "task_step iid qty t d =
     (case t of
        Pending \<Rightarrow>
          (case getById d iid of
             None \<Rightarrow> (Returned None, d)
           | Some item \<Rightarrow>
               if InventoryItem.quantity item < qty then (Returned None, d)
               else (Holding item, d))
      | Holding item \<Rightarrow>
          (case inventory d iid of
             None \<Rightarrow> (Threw, d)
           | Some current \<Rightarrow>
               (let row = current\<lparr>InventoryItem.quantity := InventoryItem.quantity item - qty\<rparr>
                in (Returned (Some row), d\<lparr>inventory := (inventory d)(iid \<mapsto> row)\<rparr>)))
      | Returned r \<Rightarrow> (Returned r, d)
      | Threw \<Rightarrow> (Threw, d))"

text \<open>
  Two calls on the same item, asking for \<open>q1\<close> and \<open>q2\<close> units, under a schedule: each
  entry says whose round trip the store serves next (\<open>True\<close> the first call, \<open>False\<close> the
  second). A call that is over ignores its turns.
\<close>

fun run2 :: "string \<Rightarrow> int \<Rightarrow> int \<Rightarrow> bool list \<Rightarrow> task \<times> task \<times> db \<Rightarrow> task \<times> task \<times> db" where
  "run2 iid q1 q2 [] c = c"
| "run2 iid q1 q2 (b # bs) (t1, t2, d) =
     (if b then (case task_step iid q1 t1 d of (t1', d') \<Rightarrow> run2 iid q1 q2 bs (t1', t2, d'))
      else (case task_step iid q2 t2 d of (t2', d') \<Rightarrow> run2 iid q1 q2 bs (t1, t2', d')))"

text \<open>
  A checkout goes on to record its sale exactly when the deduction returned a row; on
  \<open>undefined\<close> it stops with 'Failed to deduct stock'.
\<close>

fun succeeded :: "task \<Rightarrow> bool" where
  "succeeded (Returned (Some _)) = True"
| "succeeded _ = False"

fun refused :: "task \<Rightarrow> bool" where
  "refused (Returned None) = True"
| "refused _ = False"

fun finished :: "task \<Rightarrow> bool" where
  "finished (Returned _) = True"
| "finished Threw = True"
| "finished _ = False"

text \<open>
  The states two calls for 3 units each can reach from an item \<open>item\<close> holding 5 units
  in store \<open>d0\<close>: the only row ever written is \<open>item\<close> with quantity 2.
\<close>

definition race_states :: "string \<Rightarrow> InventoryItem \<Rightarrow> db \<Rightarrow> (task \<times> task \<times> db) set" where
  "race_states iid item d0 =
     (let row = item\<lparr>InventoryItem.quantity := 2\<rparr>;
          d2 = d0\<lparr>inventory := (inventory d0)(iid \<mapsto> row)\<rparr>
      in {(Pending, Pending, d0), (Holding item, Pending, d0), (Pending, Holding item, d0),
          (Holding item, Holding item, d0),
          (Returned (Some row), Pending, d2), (Pending, Returned (Some row), d2),
          (Returned (Some row), Holding item, d2), (Holding item, Returned (Some row), d2),
          (Returned (Some row), Returned None, d2), (Returned None, Returned (Some row), d2),
          (Returned (Some row), Returned (Some row), d2)})"

text \<open>The quantity column of an item, if the row exists.\<close>

definition stock :: "db \<Rightarrow> string \<Rightarrow> int option" where
  "stock d iid = map_option InventoryItem.quantity (inventory d iid)"

text \<open>Receipt creation called twice with the same arguments, under two generated ids.\<close>

definition create_receipt_twice ::
  "db \<Rightarrow> string \<Rightarrow> string \<Rightarrow> string \<Rightarrow> string \<Rightarrow> string option \<Rightarrow> SaleItem list \<Rightarrow> rat \<Rightarrow> string
     \<Rightarrow> string \<Rightarrow> dberror + (Receipt \<times> Receipt \<times> db)" where
  "create_receipt_twice d id1 id2 sid bname baddr its amount seller buyer =
     (case receiptsDB_add d id1 sid bname baddr its amount seller buyer of
        Inl e \<Rightarrow> Inl e
      | Inr (r1, d1) \<Rightarrow>
          (case receiptsDB_add d1 id2 sid bname baddr its amount seller buyer of
             Inl e \<Rightarrow> Inl e
           | Inr (r2, d2) \<Rightarrow> Inr (r1, r2, d2)))"

section \<open>Example data\<close>

definition example_item :: "string \<Rightarrow> string \<Rightarrow> rat \<Rightarrow> int \<Rightarrow> InventoryItem" where
  "example_item iid nm price qty =
     \<lparr>InventoryItem.id = iid, name = nm, category = ''parts'', InventoryItem.unitPrice = price,
      InventoryItem.quantity = qty, lowStockThreshold = 5\<rparr>"

definition example_line :: "string \<Rightarrow> string \<Rightarrow> rat \<Rightarrow> int \<Rightarrow> int \<Rightarrow> CartItem" where
  "example_line iid nm price qty avail =
     \<lparr>itemId = iid, itemName = nm, SaleItem.quantity = qty, SaleItem.unitPrice = price,
      total = of_int qty * price, availableQty = avail\<rparr>"

definition example_store :: db where
  "example_store =
     \<lparr>inventory = [''a'' \<mapsto> example_item ''a'' ''Plug'' 100 5,
                   ''b'' \<mapsto> example_item ''b'' ''Chain'' 250 1],
      sales = [], receipts = []\<rparr>"

text \<open>Two units of item a (5 in stock), then three of item b (1 in stock).\<close>

definition example_cart :: "CartItem list" where
  "example_cart = [example_line ''a'' ''Plug'' 100 2 5, example_line ''b'' ''Chain'' 250 3 3]"

text \<open>The example store once the first line of the example cart has been deducted.\<close>

definition example_store_after_first_line :: db where
  "example_store_after_first_line =
     example_store\<lparr>inventory := (inventory example_store)(''a'' \<mapsto> example_item ''a'' ''Plug'' 100 3)\<rparr>"

definition example_settings :: AppSettings where
  "example_settings =
     \<lparr>AppSettings.id = ''main'', pinHash = None, AppSettings.businessName = ''Keke Parts Depot'',
      AppSettings.businessAddress = ''12 Market Road''\<rparr>"

text \<open>A store holding one sale and no receipt yet, and the receipt row for that sale.\<close>

definition example_sold_store :: db where
  "example_sold_store =
     \<lparr>inventory = Map.empty,
      sales = [\<lparr>Sale.id = ''s1'', Sale.items = [], Sale.totalAmount = 0,
                Sale.sellerName = ''Ada'', Sale.buyerName = ''Bob''\<rparr>],
      receipts = []\<rparr>"

definition example_receipt :: "string \<Rightarrow> Receipt" where
  "example_receipt rid =
     \<lparr>Receipt.id = rid, saleId = ''s1'', Receipt.businessName = ''Keke Parts Depot'',
      Receipt.businessAddress = ''12 Market Road'', Receipt.items = [],
      Receipt.totalAmount = 0, Receipt.sellerName = ''Ada'', Receipt.buyerName = ''Bob''\<rparr>"

text \<open>
  A cart built on the page (two units of item a), the checkout of that cart by seller
  ' Ada' and buyer 'Bob  ', and the rows that checkout writes.
\<close>

definition example_single_cart :: "CartItem list" where
  "example_single_cart = fst (addToCart [] (Some (example_item ''a'' ''Plug'' 100 5)) 2)"

definition example_issued_receipt :: Receipt where
  "example_issued_receipt =
     \<lparr>Receipt.id = ''r1'', saleId = ''s1'', Receipt.businessName = ''Keke Parts Depot'',
      Receipt.businessAddress = ''56 Iwofe Road, Rumuopirikom, PHC'',
      Receipt.items = [\<lparr>itemId = ''a'', itemName = ''Plug'', SaleItem.quantity = 2,
                        SaleItem.unitPrice = 100, total = 200\<rparr>],
      Receipt.totalAmount = 200, Receipt.sellerName = ''Ada'', Receipt.buyerName = ''Bob''\<rparr>"

definition example_sale :: Sale where
  "example_sale =
     \<lparr>Sale.id = ''s1'',
      Sale.items = [\<lparr>itemId = ''a'', itemName = ''Plug'', SaleItem.quantity = 2,
                     SaleItem.unitPrice = 100, total = 200\<rparr>],
      Sale.totalAmount = 200, Sale.sellerName = ''Ada'', Sale.buyerName = ''Bob''\<rparr>"

definition example_attempt :: "(toast + Sale \<times> Receipt) \<times> db" where
  "example_attempt =
     handleSubmit example_store (Some example_settings) ''s1'' ''r1'' example_single_cart
       '' Ada'' ''Bob  ''"

section \<open>Facts about the stock deduction\<close>

lemma deductStock_sales: "sales (snd (deductStock d i q)) = sales d"
  by (simp add: deductStock_def Let_def split: option.splits)

lemma deductStock_receipts: "receipts (snd (deductStock d i q)) = receipts d"
  by (simp add: deductStock_def Let_def split: option.splits)

lemma deductStock_None:
  "deductStock d i q = (None, d') \<Longrightarrow>
   d' = d \<and> (inventory d i = None \<or> (\<exists>it. inventory d i = Some it \<and> InventoryItem.quantity it < q))"
  by (auto simp add: deductStock_def getById_def Let_def split: option.splits if_splits)

text \<open>A deduction fails exactly when the item is missing or holds fewer units than asked.\<close>

lemma deductStock_fails_iff:
  "fst (deductStock d i q) = None \<longleftrightarrow>
   inventory d i = None \<or> (\<exists>it. inventory d i = Some it \<and> InventoryItem.quantity it < q)"
  by (auto simp add: deductStock_def getById_def Let_def split: option.splits)

lemma deductStock_Some:
  "deductStock d i q = (Some row, d') \<Longrightarrow>
   \<exists>it. inventory d i = Some it \<and> q \<le> InventoryItem.quantity it
      \<and> row = it\<lparr>InventoryItem.quantity := InventoryItem.quantity it - q\<rparr>
      \<and> d' = d\<lparr>inventory := (inventory d)(i \<mapsto> row)\<rparr>"
  by (auto simp add: deductStock_def getById_def Let_def split: option.splits if_splits)

lemma deductAll_sales: "sales (snd (deductAll d cart)) = sales d"
proof (induction cart arbitrary: d)
  case Nil
  show ?case by simp
next
  case (Cons c cs)
  obtain r d1 where step: "deductStock d (itemId c) (SaleItem.quantity c) = (r, d1)"
    by (cases "deductStock d (itemId c) (SaleItem.quantity c)")
  have "sales d1 = sales d"
    using deductStock_sales [of d "itemId c" "SaleItem.quantity c"] step by simp
  with Cons.IH [of d1] step show ?case by (cases r) simp_all
qed

lemma deductAll_receipts: "receipts (snd (deductAll d cart)) = receipts d"
proof (induction cart arbitrary: d)
  case Nil
  show ?case by simp
next
  case (Cons c cs)
  obtain r d1 where step: "deductStock d (itemId c) (SaleItem.quantity c) = (r, d1)"
    by (cases "deductStock d (itemId c) (SaleItem.quantity c)")
  have "receipts d1 = receipts d"
    using deductStock_receipts [of d "itemId c" "SaleItem.quantity c"] step by simp
  with Cons.IH [of d1] step show ?case by (cases r) simp_all
qed

text \<open>The loop over a cart in two pieces.\<close>

lemma deductAll_append:
  "deductAll d (xs @ ys) =
     (case deductAll d xs of (Some c, d') \<Rightarrow> (Some c, d') | (None, d') \<Rightarrow> deductAll d' ys)"
proof (induction xs arbitrary: d)
  case Nil
  show ?case by simp
next
  case (Cons x xs)
  obtain r d1 where step: "deductStock d (itemId x) (SaleItem.quantity x) = (r, d1)"
    by (cases "deductStock d (itemId x) (SaleItem.quantity x)")
  show ?case
  proof (cases r)
    case None
    with step show ?thesis by simp
  next
    case (Some row)
    with step Cons.IH [of d1] show ?thesis by simp
  qed
qed

text \<open>
  What the loop leaves behind when it stops at line \<open>c\<close>, for a cart that names each item
  once: every line before \<open>c\<close> has been deducted and stays deducted, no other row has
  changed, and \<open>c\<close> itself asked for a missing item or for more than the store held.
\<close>

lemma deductAll_fail:
  "deductAll d cart = (Some c, d') \<Longrightarrow> distinct (map itemId cart) \<Longrightarrow>
   \<exists>pre post. cart = pre @ c # post
     \<and> (\<forall>p\<in>set pre. \<exists>it. inventory d (itemId p) = Some it
            \<and> SaleItem.quantity p \<le> InventoryItem.quantity it
            \<and> inventory d' (itemId p)
                = Some (it\<lparr>InventoryItem.quantity := InventoryItem.quantity it - SaleItem.quantity p\<rparr>))
     \<and> (\<forall>k. k \<notin> itemId ` set pre \<longrightarrow> inventory d' k = inventory d k)
     \<and> (inventory d (itemId c) = None
          \<or> (\<exists>it. inventory d (itemId c) = Some it \<and> InventoryItem.quantity it < SaleItem.quantity c))"
proof (induction cart arbitrary: d)
  case Nil
  then show ?case by simp
next
  case (Cons x xs)
  obtain r d1 where step: "deductStock d (itemId x) (SaleItem.quantity x) = (r, d1)"
    by (cases "deductStock d (itemId x) (SaleItem.quantity x)")
  show ?case
  proof (cases r)
    case None
    with step Cons.prems have "c = x" "d' = d1" by simp_all
    with deductStock_None [of d "itemId x" "SaleItem.quantity x" d1] step None
    have "d' = d" and "inventory d (itemId c) = None
          \<or> (\<exists>it. inventory d (itemId c) = Some it \<and> InventoryItem.quantity it < SaleItem.quantity c)"
      by simp_all
    with \<open>c = x\<close> have "x # xs = [] @ c # xs
     \<and> (\<forall>p\<in>set []. \<exists>it. inventory d (itemId p) = Some it
            \<and> SaleItem.quantity p \<le> InventoryItem.quantity it
            \<and> inventory d' (itemId p)
                = Some (it\<lparr>InventoryItem.quantity := InventoryItem.quantity it - SaleItem.quantity p\<rparr>))
     \<and> (\<forall>k. k \<notin> itemId ` set [] \<longrightarrow> inventory d' k = inventory d k)
     \<and> (inventory d (itemId c) = None
          \<or> (\<exists>it. inventory d (itemId c) = Some it \<and> InventoryItem.quantity it < SaleItem.quantity c))"
      by simp
    then show ?thesis by blast
  next
    case (Some row)
    with step Cons.prems have rest: "deductAll d1 xs = (Some c, d')" by simp
    from Cons.prems have dist: "distinct (map itemId xs)"
      and notin: "itemId x \<notin> itemId ` set xs" by simp_all
    from deductStock_Some [of d "itemId x" "SaleItem.quantity x" row d1] step Some
    obtain it where it: "inventory d (itemId x) = Some it"
      "SaleItem.quantity x \<le> InventoryItem.quantity it"
      "row = it\<lparr>InventoryItem.quantity := InventoryItem.quantity it - SaleItem.quantity x\<rparr>"
      "d1 = d\<lparr>inventory := (inventory d)(itemId x \<mapsto> row)\<rparr>" by auto
    have d1_other: "\<And>k. k \<noteq> itemId x \<Longrightarrow> inventory d1 k = inventory d k" using it(4) by simp
    have d1_x: "inventory d1 (itemId x) = Some row" using it(4) by simp
    from Cons.IH [OF rest dist] obtain pre post where
      split: "xs = pre @ c # post"
      and pre: "\<forall>p\<in>set pre. \<exists>it. inventory d1 (itemId p) = Some it
            \<and> SaleItem.quantity p \<le> InventoryItem.quantity it
            \<and> inventory d' (itemId p)
                = Some (it\<lparr>InventoryItem.quantity := InventoryItem.quantity it - SaleItem.quantity p\<rparr>)"
      and others: "\<forall>k. k \<notin> itemId ` set pre \<longrightarrow> inventory d' k = inventory d1 k"
      and fails: "inventory d1 (itemId c) = None
          \<or> (\<exists>it. inventory d1 (itemId c) = Some it \<and> InventoryItem.quantity it < SaleItem.quantity c)"
      by blast
    have c_ne: "itemId c \<noteq> itemId x"
    proof -
      from split have "c \<in> set xs" by simp
      then have "itemId c \<in> itemId ` set xs" by (rule imageI)
      with notin show ?thesis by metis
    qed
    have pre_ne: "itemId p \<noteq> itemId x" if "p \<in> set pre" for p
    proof -
      from that split have "p \<in> set xs" by simp
      then have "itemId p \<in> itemId ` set xs" by (rule imageI)
      with notin show ?thesis by metis
    qed
    have x_notin_pre: "itemId x \<notin> itemId ` set pre" using pre_ne by (metis imageE)
    have 1: "x # xs = (x # pre) @ c # post" using split by simp
    have 2: "\<forall>p\<in>set (x # pre). \<exists>it. inventory d (itemId p) = Some it
            \<and> SaleItem.quantity p \<le> InventoryItem.quantity it
            \<and> inventory d' (itemId p)
                = Some (it\<lparr>InventoryItem.quantity := InventoryItem.quantity it - SaleItem.quantity p\<rparr>)"
    proof
      fix p assume "p \<in> set (x # pre)"
      then consider "p = x" | "p \<in> set pre" by auto
      then show "\<exists>it. inventory d (itemId p) = Some it
            \<and> SaleItem.quantity p \<le> InventoryItem.quantity it
            \<and> inventory d' (itemId p)
                = Some (it\<lparr>InventoryItem.quantity := InventoryItem.quantity it - SaleItem.quantity p\<rparr>)"
      proof cases
        case 1
        have "inventory d' (itemId x) = Some row" using others x_notin_pre d1_x by simp
        with it 1 show ?thesis by (intro exI [of _ it]) simp
      next
        case 2
        with pre obtain it' where "inventory d1 (itemId p) = Some it'"
            "SaleItem.quantity p \<le> InventoryItem.quantity it'"
            "inventory d' (itemId p)
                = Some (it'\<lparr>InventoryItem.quantity := InventoryItem.quantity it' - SaleItem.quantity p\<rparr>)"
          by blast
        with d1_other [OF pre_ne [OF 2]] show ?thesis by (intro exI [of _ it']) simp
      qed
    qed
    have 3: "\<forall>k. k \<notin> itemId ` set (x # pre) \<longrightarrow> inventory d' k = inventory d k"
      using others d1_other by simp
    have 4: "inventory d (itemId c) = None
          \<or> (\<exists>it. inventory d (itemId c) = Some it \<and> InventoryItem.quantity it < SaleItem.quantity c)"
      using fails d1_other [OF c_ne] by simp
    from 1 2 3 4 show ?thesis by blast
  qed
qed

section \<open>Facts about checkout\<close>

lemma handleSubmit_deduct_failed:
  assumes "handleSubmit d settings newSaleId newReceiptId cart seller buyer
             = (Inl (FailedToDeductStock n), d')"
  shows "\<exists>c. deductAll d cart = (Some c, d') \<and> n = itemName c"
proof -
  obtain r d1 where da: "deductAll d cart = (r, d1)" by (cases "deductAll d cart")
  from assms da show ?thesis
    by (auto simp add: handleSubmit_def salesDB_add_def receiptsDB_add_def Let_def
        split: if_splits option.splits sum.splits prod.splits)
qed

lemma handleSubmit_success:
  assumes "handleSubmit d settings newSaleId newReceiptId cart seller buyer
             = (Inr (sale, receipt), d')"
  shows "cart \<noteq> [] \<and> trim seller \<noteq> [] \<and> trim buyer \<noteq> []
     \<and> fst (deductAll d cart) = None
     \<and> newSaleId \<notin> set (map Sale.id (sales d))
     \<and> newReceiptId \<notin> set (map Receipt.id (receipts d))
     \<and> sale = \<lparr>Sale.id = newSaleId, Sale.items = saleItems_of cart,
               Sale.totalAmount = totalAmount_of cart,
               Sale.sellerName = trim seller, Sale.buyerName = trim buyer\<rparr>
     \<and> receipt = \<lparr>Receipt.id = newReceiptId, saleId = newSaleId,
               Receipt.businessName = businessName_or_fallback settings,
               Receipt.businessAddress = receipts_business_address_default,
               Receipt.items = saleItems_of cart, Receipt.totalAmount = totalAmount_of cart,
               Receipt.sellerName = trim seller, Receipt.buyerName = trim buyer\<rparr>
     \<and> inventory d' = inventory (snd (deductAll d cart))
     \<and> sales d' = sales d @ [sale]
     \<and> receipts d' = receipts d @ [receipt]"
proof -
  obtain r d1 where da: "deductAll d cart = (r, d1)" by (cases "deductAll d cart")
  have s1: "sales d1 = sales d" using deductAll_sales [of d cart] da by simp
  have r1: "receipts d1 = receipts d" using deductAll_receipts [of d cart] da by simp
  from assms da s1 r1 show ?thesis
    by (auto simp add: handleSubmit_def salesDB_add_def receiptsDB_add_def Let_def
        split: if_splits option.splits sum.splits prod.splits)
qed

lemma handleSubmit_succeeds:
  assumes "cart \<noteq> []" "trim seller \<noteq> []" "trim buyer \<noteq> []"
    and "fst (deductAll d cart) = None"
    and "newSaleId \<notin> set (map Sale.id (sales d))"
    and "newReceiptId \<notin> set (map Receipt.id (receipts d))"
  shows "\<exists>sale receipt d'. handleSubmit d settings newSaleId newReceiptId cart seller buyer
             = (Inr (sale, receipt), d')"
proof -
  obtain r d1 where da: "deductAll d cart = (r, d1)" by (cases "deductAll d cart")
  have s1: "sales d1 = sales d" using deductAll_sales [of d cart] da by simp
  have r1: "receipts d1 = receipts d" using deductAll_receipts [of d cart] da by simp
  from assms da s1 r1 show ?thesis
    by (simp add: handleSubmit_def salesDB_add_def receiptsDB_add_def Let_def)
qed

lemma deductAll_insufficient:
  assumes "l \<in> set cart" and "distinct (map itemId cart)"
    and "inventory d (itemId l) = Some it"
    and "InventoryItem.quantity it < SaleItem.quantity l"
  shows "\<exists>c d'. deductAll d cart = (Some c, d') \<and> c \<in> set cart
           \<and> inventory d' (itemId l) = Some it"
  using assms
proof (induction cart arbitrary: d)
  case Nil
  then show ?case by simp
next
  case (Cons x xs)
  obtain r d1 where step: "deductStock d (itemId x) (SaleItem.quantity x) = (r, d1)"
    by (cases "deductStock d (itemId x) (SaleItem.quantity x)")
  show ?case
  proof (cases r)
    case None
    with step deductStock_None [of d "itemId x" "SaleItem.quantity x" d1]
    have "d1 = d" by simp
    with step None Cons.prems(3) show ?thesis by simp
  next
    case (Some row)
    from deductStock_Some [of d "itemId x" "SaleItem.quantity x" row d1] step Some
    obtain it' where it': "inventory d (itemId x) = Some it'"
      "SaleItem.quantity x \<le> InventoryItem.quantity it'"
      "d1 = d\<lparr>inventory := (inventory d)(itemId x \<mapsto> row)\<rparr>" by auto
    have "l \<noteq> x"
    proof
      assume "l = x"
      with it' Cons.prems(3,4) show False by simp
    qed
    with Cons.prems(1) have l_in: "l \<in> set xs" by simp
    then have "itemId l \<in> itemId ` set xs" by (rule imageI)
    with Cons.prems(2) have ne: "itemId l \<noteq> itemId x" by auto
    with it'(3) Cons.prems(3) have inv1: "inventory d1 (itemId l) = Some it" by simp
    from Cons.prems(2) have "distinct (map itemId xs)" by simp
    from Cons.IH [OF l_in this inv1 Cons.prems(4)]
    obtain c d' where "deductAll d1 xs = (Some c, d')" "c \<in> set xs"
      "inventory d' (itemId l) = Some it" by blast
    with step Some show ?thesis by simp
  qed
qed

text \<open>
  Conversely, a checkout that ends with 'Failed to deduct stock' stopped at a line whose
  item is missing or short of stock.
\<close>

lemma failed_checkout_stopped_at_line:
  assumes "handleSubmit d settings newSaleId newReceiptId cart seller buyer
             = (Inl (FailedToDeductStock n), d')"
    and "distinct (map itemId cart)"
  shows "\<exists>pre c post. cart = pre @ c # post \<and> n = itemName c
     \<and> sales d' = sales d \<and> receipts d' = receipts d
     \<and> (inventory d (itemId c) = None
          \<or> (\<exists>it. inventory d (itemId c) = Some it \<and> InventoryItem.quantity it < SaleItem.quantity c))
     \<and> (\<forall>p\<in>set pre. \<exists>it. inventory d (itemId p) = Some it
            \<and> inventory d' (itemId p)
                = Some (it\<lparr>InventoryItem.quantity := InventoryItem.quantity it - SaleItem.quantity p\<rparr>))
     \<and> (\<forall>k. k \<notin> itemId ` set pre \<longrightarrow> inventory d' k = inventory d k)"
proof -
  from handleSubmit_deduct_failed [OF assms(1)]
  obtain c where c: "deductAll d cart = (Some c, d')" "n = itemName c" by blast
  have s: "sales d' = sales d" using deductAll_sales [of d cart] c(1) by simp
  have r: "receipts d' = receipts d" using deductAll_receipts [of d cart] c(1) by simp
  from deductAll_fail [OF c(1) assms(2)] obtain pre post where
    "cart = pre @ c # post"
    "\<forall>p\<in>set pre. \<exists>it. inventory d (itemId p) = Some it
            \<and> SaleItem.quantity p \<le> InventoryItem.quantity it
            \<and> inventory d' (itemId p)
                = Some (it\<lparr>InventoryItem.quantity := InventoryItem.quantity it - SaleItem.quantity p\<rparr>)"
    "\<forall>k. k \<notin> itemId ` set pre \<longrightarrow> inventory d' k = inventory d k"
    "inventory d (itemId c) = None
          \<or> (\<exists>it. inventory d (itemId c) = Some it \<and> InventoryItem.quantity it < SaleItem.quantity c)"
    by blast
  with c(2) s r show ?thesis by blast
qed

section \<open>Facts about two calls in flight\<close>

lemma race_init: "(Pending, Pending, d0) \<in> race_states iid item d0"
  by (simp add: race_states_def Let_def)

lemma race_step_facts:
  assumes "inventory d0 iid = Some item" "InventoryItem.quantity item = 5"
  defines "row \<equiv> item\<lparr>InventoryItem.quantity := 2\<rparr>"
  defines "d2 \<equiv> d0\<lparr>inventory := (inventory d0)(iid \<mapsto> row)\<rparr>"
  shows "task_step iid 3 Pending d0 = (Holding item, d0)"
    and "task_step iid 3 Pending d2 = (Returned None, d2)"
    and "task_step iid 3 (Holding item) d0 = (Returned (Some row), d2)"
    and "task_step iid 3 (Holding item) d2 = (Returned (Some row), d2)"
    and "task_step iid 3 (Returned r) d = (Returned r, d)"
  using assms by (simp_all add: task_step_def getById_def Let_def)

lemma race_step1:
  assumes "inventory d0 iid = Some item" "InventoryItem.quantity item = 5"
    and "(t1, t2, d) \<in> race_states iid item d0"
  shows "(fst (task_step iid 3 t1 d), t2, snd (task_step iid 3 t1 d)) \<in> race_states iid item d0"
  using assms(3) unfolding race_states_def Let_def
  by (elim insertE emptyE) (simp_all add: race_step_facts [OF assms(1,2)])

lemma race_step2:
  assumes "inventory d0 iid = Some item" "InventoryItem.quantity item = 5"
    and "(t1, t2, d) \<in> race_states iid item d0"
  shows "(t1, fst (task_step iid 3 t2 d), snd (task_step iid 3 t2 d)) \<in> race_states iid item d0"
  using assms(3) unfolding race_states_def Let_def
  by (elim insertE emptyE) (simp_all add: race_step_facts [OF assms(1,2)])

lemma race_run:
  assumes "inventory d0 iid = Some item" "InventoryItem.quantity item = 5"
  shows "c \<in> race_states iid item d0 \<Longrightarrow> run2 iid 3 3 sched c \<in> race_states iid item d0"
proof (induction sched arbitrary: c)
  case Nil
  then show ?case by simp
next
  case (Cons b bs)
  obtain t1 t2 d where c: "c = (t1, t2, d)" by (cases c)
  show ?case
  proof (cases b)
    case True
    from race_step1 [OF assms] Cons.prems c
    have "(fst (task_step iid 3 t1 d), t2, snd (task_step iid 3 t1 d)) \<in> race_states iid item d0"
      by simp
    from Cons.IH [OF this] True c show ?thesis by (simp add: case_prod_beta)
  next
    case False
    from race_step2 [OF assms] Cons.prems c
    have "(t1, fst (task_step iid 3 t2 d), snd (task_step iid 3 t2 d)) \<in> race_states iid item d0"
      by simp
    from Cons.IH [OF this] False c show ?thesis by (simp add: case_prod_beta)
  qed
qed

lemma race_states_facts:
  assumes "inventory d0 iid = Some item" "InventoryItem.quantity item = 5"
    and "(t1, t2, d) \<in> race_states iid item d0"
  shows "(stock d iid = Some 5 \<or> stock d iid = Some 2)
    \<and> (finished t1 \<and> finished t2 \<longrightarrow>
           stock d iid = Some 2 \<and> (succeeded t1 \<or> succeeded t2))"
  using assms(3) unfolding race_states_def Let_def
  by (elim insertE emptyE) (simp_all add: stock_def assms(1,2))

lemma serial_first:
  assumes "inventory d0 iid = Some item" "InventoryItem.quantity item = 5"
  shows "run2 iid 3 3 [True, True, False] (Pending, Pending, d0)
        = (Returned (Some (item\<lparr>InventoryItem.quantity := 2\<rparr>)), Returned None,
           d0\<lparr>inventory := (inventory d0)(iid \<mapsto> item\<lparr>InventoryItem.quantity := 2\<rparr>)\<rparr>)"
  by (simp add: race_step_facts [OF assms])

lemma serial_second:
  assumes "inventory d0 iid = Some item" "InventoryItem.quantity item = 5"
  shows "run2 iid 3 3 [False, False, True] (Pending, Pending, d0)
        = (Returned None, Returned (Some (item\<lparr>InventoryItem.quantity := 2\<rparr>)),
           d0\<lparr>inventory := (inventory d0)(iid \<mapsto> item\<lparr>InventoryItem.quantity := 2\<rparr>)\<rparr>)"
  by (simp add: race_step_facts [OF assms])

text \<open>The sequential \<open>deductStock\<close> is the two round trips run back to back.\<close>

lemma deductStock_two_steps:
  "deductStock d iid qty =
     (case task_step iid qty Pending d of (t, d1) \<Rightarrow>
        (case task_step iid qty t d1 of (Returned r, d2) \<Rightarrow> (r, d2) | (_, d2) \<Rightarrow> (None, d2)))"
  by (simp add: deductStock_def task_step_def getById_def Let_def split: option.splits)

section \<open>Facts about the cart\<close>

lemma findIndex_None: "findIndex P xs = None \<longleftrightarrow> (\<forall>x\<in>set xs. \<not> P x)"
  by (induction xs) auto

lemma findIndex_Some:
  "findIndex P xs = Some i \<Longrightarrow> i < length xs \<and> P (xs ! i) \<and> (\<forall>j<i. \<not> P (xs ! j))"
proof (induction xs arbitrary: i)
  case Nil
  then show ?case by simp
next
  case (Cons x xs)
  show ?case
  proof (cases "P x")
    case True
    with Cons.prems show ?thesis by simp
  next
    case False
    with Cons.prems obtain k where k: "findIndex P xs = Some k" "i = Suc k" by auto
    from Cons.IH [OF k(1)] have "k < length xs" "P (xs ! k)" "\<forall>j<k. \<not> P (xs ! j)" by simp_all
    with False k(2) show ?thesis by (auto simp add: nth_Cons split: nat.splits)
  qed
qed

text \<open>A cart built on the page names each item once.\<close>

lemma removeFromCart_distinct:
  assumes "distinct (map itemId cart)"
  shows "distinct (map itemId (removeFromCart cart index))"
proof -
  let ?ys = "map itemId cart"
  have "map itemId (removeFromCart cart index) = take index ?ys @ drop (Suc index) ?ys"
    by (simp add: removeFromCart_def take_map drop_map)
  moreover have "distinct (take index ?ys @ drop (Suc index) ?ys)"
    using assms set_take_disj_set_drop_if_distinct [of ?ys index "Suc index"]
    by (simp add: distinct_take distinct_drop)
  ultimately show ?thesis by simp
qed

lemma list_update_same_itemId:
  assumes "i < length cart" and "itemId y = itemId (cart ! i)"
  shows "map itemId (cart[i := y]) = map itemId cart"
  using assms by (simp add: map_update list_update_same_conv)

lemma addToCart_distinct:
  assumes "distinct (map itemId cart)"
  shows "distinct (map itemId (fst (addToCart cart selectedItem qty)))"
proof (cases selectedItem)
  case None
  with assms show ?thesis by (simp add: addToCart_def)
next
  case (Some sel)
  show ?thesis
  proof (cases "findIndex (\<lambda>c. itemId c = InventoryItem.id sel) cart")
    case None
    then have "\<forall>c\<in>set cart. itemId c \<noteq> InventoryItem.id sel" by (simp add: findIndex_None)
    then have "InventoryItem.id sel \<notin> itemId ` set cart" by (metis imageE)
    with None Some assms show ?thesis by (simp add: addToCart_def)
  next
    case (Some i)
    from findIndex_Some [OF Some] have i: "i < length cart" by simp
    let ?y = "(cart ! i)\<lparr>SaleItem.quantity := SaleItem.quantity (cart ! i) + qty,
                 total := of_int (SaleItem.quantity (cart ! i) + qty) * SaleItem.unitPrice (cart ! i)\<rparr>"
    have "map itemId (cart[i := ?y]) = map itemId cart"
      by (rule list_update_same_itemId [OF i]) simp
    with Some \<open>selectedItem = Some sel\<close> assms show ?thesis
      by (simp add: addToCart_def Let_def)
  qed
qed

lemma updateCartQuantity_distinct:
  assumes "distinct (map itemId cart)"
    and "updateCartQuantity cart index delta = Some (cart', t)"
  shows "distinct (map itemId cart')"
proof -
  let ?y = "(cart ! index)\<lparr>SaleItem.quantity := SaleItem.quantity (cart ! index) + delta,
                   total := of_int (SaleItem.quantity (cart ! index) + delta) * SaleItem.unitPrice (cart ! index)\<rparr>"
  from assms(2) have i: "index < length cart"
    by (simp add: updateCartQuantity_def split: if_splits)
  from assms(2) consider "cart' = removeFromCart cart index" | "cart' = cart"
    | "cart' = cart[index := ?y]"
    by (auto simp add: updateCartQuantity_def Let_def split: if_splits)
  then show ?thesis
  proof cases
    case 1 with removeFromCart_distinct [OF assms(1)] show ?thesis by simp
  next
    case 2 with assms(1) show ?thesis by simp
  next
    case 3
    have "map itemId (cart[index := ?y]) = map itemId cart"
      by (rule list_update_same_itemId [OF i]) simp
    with 3 assms(1) show ?thesis by simp
  qed
qed

lemma reachable_cart_distinct: "reachable_cart cart \<Longrightarrow> distinct (map itemId cart)"
proof (induction rule: reachable_cart.induct)
  case empty
  show ?case by simp
next
  case (add cart selectedItem qty)
  then show ?case by (simp add: addToCart_distinct)
next
  case (update cart index delta cart' t)
  then show ?case using updateCartQuantity_distinct by blast
next
  case (remove cart index)
  then show ?case by (simp add: removeFromCart_distinct)
qed

section \<open>Facts about trimming\<close>

lemma trim_empty_iff: "trim s = [] \<longleftrightarrow> (\<forall>c\<in>set s. isWhiteSpace c)"
proof
  assume "trim s = []"
  then have all: "\<forall>c\<in>set (dropWhile isWhiteSpace s). isWhiteSpace c"
    by (simp add: trim_def dropWhile_eq_Nil_conv)
  have "dropWhile isWhiteSpace s = []"
  proof (rule ccontr)
    assume ne: "dropWhile isWhiteSpace s \<noteq> []"
    then have "\<not> isWhiteSpace (hd (dropWhile isWhiteSpace s))" by (rule hd_dropWhile)
    moreover from ne have "hd (dropWhile isWhiteSpace s) \<in> set (dropWhile isWhiteSpace s)"
      by (rule hd_in_set)
    ultimately show False using all by blast
  qed
  then show "\<forall>c\<in>set s. isWhiteSpace c" by (simp add: dropWhile_eq_Nil_conv)
next
  assume "\<forall>c\<in>set s. isWhiteSpace c"
  then have "dropWhile isWhiteSpace s = []" by simp
  then show "trim s = []" by (simp only: trim_def rev.simps dropWhile.simps)
qed

lemma last_dropWhile: "dropWhile P xs \<noteq> [] \<Longrightarrow> last (dropWhile P xs) = last xs"
  by (induction xs) (auto split: if_splits)

lemma trim_ends:
  assumes "trim s \<noteq> []"
  shows "\<not> isWhiteSpace (hd (trim s)) \<and> \<not> isWhiteSpace (last (trim s))"
proof -
  let ?a = "dropWhile isWhiteSpace s"
  let ?b = "dropWhile isWhiteSpace (rev ?a)"
  from assms have b: "?b \<noteq> []" by (simp add: trim_def)
  have a: "?a \<noteq> []"
  proof
    assume "?a = []"
    then have "?b = []" by (simp only: rev.simps dropWhile.simps)
    with b show False by contradiction
  qed
  have "last (trim s) = hd ?b" using b by (simp add: trim_def last_rev)
  moreover have "\<not> isWhiteSpace (hd ?b)" using b by (rule hd_dropWhile)
  moreover have "hd (trim s) = last ?b" using b by (simp add: trim_def hd_rev)
  moreover have "last ?b = last (rev ?a)" using b by (rule last_dropWhile)
  moreover have "last (rev ?a) = hd ?a" using a by (simp add: last_rev)
  moreover have "\<not> isWhiteSpace (hd ?a)" using a by (rule hd_dropWhile)
  ultimately show ?thesis by simp
qed

lemma trim_decomposition:
  "\<exists>l r. s = l @ trim s @ r \<and> (\<forall>c\<in>set l. isWhiteSpace c) \<and> (\<forall>c\<in>set r. isWhiteSpace c)"
proof -
  let ?a = "dropWhile isWhiteSpace s"
  have 1: "s = takeWhile isWhiteSpace s @ ?a" by simp
  have "?a = rev (rev ?a)" by (simp only: rev_rev_ident)
  also have "\<dots> = rev (takeWhile isWhiteSpace (rev ?a) @ dropWhile isWhiteSpace (rev ?a))"
    by (simp only: takeWhile_dropWhile_id)
  also have "\<dots> = rev (dropWhile isWhiteSpace (rev ?a)) @ rev (takeWhile isWhiteSpace (rev ?a))"
    by (simp only: rev_append)
  also have "\<dots> = trim s @ rev (takeWhile isWhiteSpace (rev ?a))"
    by (simp only: trim_def)
  finally have 3: "?a = trim s @ rev (takeWhile isWhiteSpace (rev ?a))" .
  have "s = takeWhile isWhiteSpace s @ trim s @ rev (takeWhile isWhiteSpace (rev ?a))"
    using 1 3 by metis
  moreover have "\<forall>c\<in>set (takeWhile isWhiteSpace s). isWhiteSpace c"
    by (auto dest: set_takeWhileD)
  moreover have "\<forall>c\<in>set (rev (takeWhile isWhiteSpace (rev ?a))). isWhiteSpace c"
    by (auto dest: set_takeWhileD)
  ultimately show ?thesis by blast
qed

section \<open>The example checkout\<close>

lemma example_single_cart_eq:
  "example_single_cart = [example_line ''a'' ''Plug'' 100 2 5]"
  by (simp add: example_single_cart_def addToCart_def example_item_def example_line_def)

lemma example_checkout:
  "fst (handleSubmit example_store (Some example_settings) ''s1'' ''r1'' example_single_cart
      '' Ada'' ''Bob  '')
   = Inr (example_sale, example_issued_receipt)"
  by (simp add: example_single_cart_eq handleSubmit_def example_line_def example_store_def
        example_item_def example_settings_def example_sale_def example_issued_receipt_def
        deductStock_def getById_def
        trim_def isWhiteSpace_def Let_def salesDB_add_def receiptsDB_add_def
        saleItems_of_def totalAmount_of_def SaleItem.truncate_def
        businessName_or_fallback_def receipts_business_address_default_def)

lemma example_attempt_eq:
  "handleSubmit example_store (Some example_settings) ''s1'' ''r1'' example_single_cart
       '' Ada'' ''Bob  '' = (Inr (example_sale, example_issued_receipt), snd example_attempt)"
  using example_checkout by (simp add: prod_eq_iff example_attempt_def)

section \<open>C1: a failed line and the lines before it\<close>

text \<open>
  C1 as stated: when a line's deduction fails, the deductions of the earlier lines are
  reversed and every item's quantity is what it was before the attempt. The checkout has
  no reversing step. With 5 units of item a and 1 of item b in store, a cart of 2 a and
  3 b stops at the second line with 'Failed to deduct stock for Chain', and item a is left
  at 3 units, not 5.
\<close>

theorem C1_earlier_deduction_not_reversed_counterexample:
  "fst (handleSubmit example_store (Some example_settings) ''s1'' ''r1'' example_cart ''Ada'' ''Bob'')
      = Inl (FailedToDeductStock ''Chain'')
   \<and> stock example_store ''a'' = Some 5
   \<and> stock (snd (handleSubmit example_store (Some example_settings) ''s1'' ''r1'' example_cart
                  ''Ada'' ''Bob'')) ''a'' = Some 3"
  by (simp add: handleSubmit_def example_cart_def example_line_def example_store_def
        example_item_def deductStock_def getById_def trim_def isWhiteSpace_def stock_def Let_def)

text \<open>
  C1 as amended: take a checkout that passes validation, whose lines before line \<open>c\<close>
  are all deducted, and whose deduction for \<open>c\<close> fails (the item is missing or holds
  fewer units than asked, \<open>deductStock_fails_iff\<close>). The checkout halts at \<open>c\<close> with 'Failed to deduct stock' for
  that line and writes no sale and no receipt row; the store it leaves is the one the
  earlier deductions produced, with nothing reversed. For a cart naming each item once
  (as every cart built on the page does, \<open>reachable_cart_distinct\<close>) each earlier line's
  item stays reduced by that line's quantity and every other inventory row, the failing
  line's included, is as it was before the attempt.
\<close>

theorem C1_failed_line_halts_without_rollback:
  assumes "trim seller \<noteq> []" and "trim buyer \<noteq> []"
    and "deductAll d pre = (None, d1)"
    and "fst (deductStock d1 (itemId c) (SaleItem.quantity c)) = None"
  shows "handleSubmit d settings newSaleId newReceiptId (pre @ c # post) seller buyer
           = (Inl (FailedToDeductStock (itemName c)), d1)
     \<and> sales d1 = sales d \<and> receipts d1 = receipts d
     \<and> (distinct (map itemId (pre @ c # post)) \<longrightarrow>
           (\<forall>p\<in>set pre. \<exists>it. inventory d (itemId p) = Some it
               \<and> SaleItem.quantity p \<le> InventoryItem.quantity it
               \<and> inventory d1 (itemId p)
                   = Some (it\<lparr>InventoryItem.quantity :=
                                InventoryItem.quantity it - SaleItem.quantity p\<rparr>))
           \<and> (\<forall>k. k \<notin> itemId ` set pre \<longrightarrow> inventory d1 k = inventory d k))"
proof -
  obtain d1' where ds: "deductStock d1 (itemId c) (SaleItem.quantity c) = (None, d1')"
    using assms(4) by (cases "deductStock d1 (itemId c) (SaleItem.quantity c)") simp
  from deductStock_None [OF ds] have "d1' = d1" by simp
  with ds have "deductAll d1 (c # post) = (Some c, d1)" by simp
  with assms(3) have run: "deductAll d (pre @ c # post) = (Some c, d1)"
    by (simp add: deductAll_append)
  with assms(1,2)
  have res: "handleSubmit d settings newSaleId newReceiptId (pre @ c # post) seller buyer
           = (Inl (FailedToDeductStock (itemName c)), d1)"
    by (simp add: handleSubmit_def)
  have s: "sales d1 = sales d" using deductAll_sales [of d pre] assms(3) by simp
  have r: "receipts d1 = receipts d" using deductAll_receipts [of d pre] assms(3) by simp
  have stockpart: "(\<forall>p\<in>set pre. \<exists>it. inventory d (itemId p) = Some it
               \<and> SaleItem.quantity p \<le> InventoryItem.quantity it
               \<and> inventory d1 (itemId p)
                   = Some (it\<lparr>InventoryItem.quantity :=
                                InventoryItem.quantity it - SaleItem.quantity p\<rparr>))
           \<and> (\<forall>k. k \<notin> itemId ` set pre \<longrightarrow> inventory d1 k = inventory d k)"
    if dist: "distinct (map itemId (pre @ c # post))"
  proof -
    from deductAll_fail [OF run dist] obtain pre' post' where
      eq: "pre @ c # post = pre' @ c # post'"
      and p1: "\<forall>p\<in>set pre'. \<exists>it. inventory d (itemId p) = Some it
            \<and> SaleItem.quantity p \<le> InventoryItem.quantity it
            \<and> inventory d1 (itemId p)
                = Some (it\<lparr>InventoryItem.quantity := InventoryItem.quantity it - SaleItem.quantity p\<rparr>)"
      and p2: "\<forall>k. k \<notin> itemId ` set pre' \<longrightarrow> inventory d1 k = inventory d k"
      by blast
    from dist have "distinct (pre @ c # post)" by (simp only: distinct_map)
    then have "c \<notin> set pre" "c \<notin> set post" by simp_all
    from append_Cons_eq_iff [OF this] eq have "pre = pre'" by blast
    with p1 p2 show ?thesis by simp
  qed
  from res s r stockpart show ?thesis by blast
qed

theorem C1_failed_line_halts_without_rollback_witness:
  "trim ''Ada'' \<noteq> [] \<and> trim ''Bob'' \<noteq> []
   \<and> deductAll example_store [example_line ''a'' ''Plug'' 100 2 5]
        = (None, example_store_after_first_line)
   \<and> fst (deductStock example_store_after_first_line ''b'' 3) = None
   \<and> handleSubmit example_store (Some example_settings) ''s1'' ''r1'' example_cart ''Ada'' ''Bob''
        = (Inl (FailedToDeductStock ''Chain''), example_store_after_first_line)
   \<and> inventory example_store_after_first_line ''z'' = None
   \<and> fst (deductStock example_store_after_first_line ''z'' 1) = None
   \<and> handleSubmit example_store (Some example_settings) ''s1'' ''r1''
        [example_line ''a'' ''Plug'' 100 2 5, example_line ''z'' ''Zed'' 10 1 1] ''Ada'' ''Bob''
        = (Inl (FailedToDeductStock ''Zed''), example_store_after_first_line)
   \<and> sales example_store_after_first_line = sales example_store
   \<and> receipts example_store_after_first_line = receipts example_store
   \<and> stock example_store ''a'' = Some 5
   \<and> stock example_store_after_first_line ''a'' = Some 3
   \<and> stock example_store_after_first_line ''b'' = stock example_store ''b''"
proof -
  let ?a = "example_line ''a'' ''Plug'' 100 2 5"
  let ?b = "example_line ''b'' ''Chain'' 250 3 3"
  let ?z = "example_line ''z'' ''Zed'' 10 1 1"
  have h1: "trim ''Ada'' \<noteq> []" and h2: "trim ''Bob'' \<noteq> []"
    by (simp_all add: trim_def isWhiteSpace_def)
  have h3: "deductAll example_store [?a] = (None, example_store_after_first_line)"
    by (simp add: example_store_after_first_line_def example_line_def example_store_def
          example_item_def deductStock_def getById_def Let_def)
  have b: "itemId ?b = ''b''" "SaleItem.quantity ?b = 3" "itemName ?b = ''Chain''"
    and z: "itemId ?z = ''z''" "SaleItem.quantity ?z = 1" "itemName ?z = ''Zed''"
    by (simp_all add: example_line_def)
  have h4: "fst (deductStock example_store_after_first_line (itemId ?b) (SaleItem.quantity ?b)) = None"
    by (simp add: b example_store_after_first_line_def example_store_def
          example_item_def deductStock_def getById_def Let_def)
  have missing: "inventory example_store_after_first_line ''z'' = None"
    by (simp add: example_store_after_first_line_def example_store_def)
  then have h5: "fst (deductStock example_store_after_first_line (itemId ?z) (SaleItem.quantity ?z)) = None"
    by (simp add: z deductStock_def getById_def)
  have cart: "[?a] @ ?b # [] = example_cart" by (simp add: example_cart_def)
  have cartz: "[?a] @ ?z # [] = [?a, ?z]" by simp
  have st: "stock example_store ''a'' = Some 5"
    "stock example_store_after_first_line ''a'' = Some 3"
    "stock example_store_after_first_line ''b'' = stock example_store ''b''"
    by (simp_all add: stock_def example_store_after_first_line_def example_store_def
          example_item_def)
  from C1_failed_line_halts_without_rollback
         [OF h1 h2 h3 h4, of "Some example_settings" "''s1''" "''r1''" "[]"]
  have short: "handleSubmit example_store (Some example_settings) ''s1'' ''r1'' example_cart
          ''Ada'' ''Bob''
        = (Inl (FailedToDeductStock ''Chain''), example_store_after_first_line)
   \<and> sales example_store_after_first_line = sales example_store
   \<and> receipts example_store_after_first_line = receipts example_store"
    unfolding cart b by blast
  from C1_failed_line_halts_without_rollback
         [OF h1 h2 h3 h5, of "Some example_settings" "''s1''" "''r1''" "[]"]
  have gone: "handleSubmit example_store (Some example_settings) ''s1'' ''r1'' [?a, ?z]
          ''Ada'' ''Bob''
        = (Inl (FailedToDeductStock ''Zed''), example_store_after_first_line)"
    unfolding cartz z by blast
  from h1 h2 h3 h4 h5 missing short gone st show ?thesis unfolding b z by simp
qed

section \<open>C2: two checkouts of 3 units against 5 in stock\<close>

text \<open>
  C2 as stated: exactly one of the two attempts succeeds and the other is refused, as if
  the read, check and write of the item ran under a lock. The read and the write are two
  store calls. When the store serves both reads before either write, both calls pass the
  stock check against 5 units and both return an updated row: both checkouts succeed.
\<close>

theorem C2_both_checkouts_succeed_counterexample:
  "succeeded (fst (run2 ''a'' 3 3 [True, False, True, False] (Pending, Pending, example_store)))
   \<and> succeeded (fst (snd (run2 ''a'' 3 3 [True, False, True, False] (Pending, Pending, example_store))))
   \<and> stock example_store ''a'' = Some 5
   \<and> stock (snd (snd (run2 ''a'' 3 3 [True, False, True, False]
                          (Pending, Pending, example_store)))) ''a'' = Some 2"
  by (simp add: task_step_def example_store_def example_item_def getById_def stock_def Let_def)

text \<open>
  C2 as amended: with 5 units in stock and two checkouts asking for 3 units each, under
  every schedule of their store round trips the quantity is never negative, and once both
  calls are over it is 2 and at least one checkout has succeeded. When one call is over
  before the other starts, exactly one succeeds and the other is refused.
\<close>

theorem C2_two_checkouts_any_schedule:
  assumes "inventory d0 iid = Some item" and "InventoryItem.quantity item = 5"
  shows "(\<forall>sched. case run2 iid 3 3 sched (Pending, Pending, d0) of
            (t1, t2, d) \<Rightarrow>
              (\<exists>q. stock d iid = Some q \<and> 0 \<le> q)
              \<and> (finished t1 \<and> finished t2 \<longrightarrow>
                   stock d iid = Some 2 \<and> (succeeded t1 \<or> succeeded t2)))
     \<and> (case run2 iid 3 3 [True, True, False] (Pending, Pending, d0) of
            (t1, t2, d) \<Rightarrow> succeeded t1 \<and> refused t2 \<and> stock d iid = Some 2)
     \<and> (case run2 iid 3 3 [False, False, True] (Pending, Pending, d0) of
            (t1, t2, d) \<Rightarrow> refused t1 \<and> succeeded t2 \<and> stock d iid = Some 2)"
proof (intro conjI allI)
  fix sched
  obtain t1 t2 d where run: "run2 iid 3 3 sched (Pending, Pending, d0) = (t1, t2, d)"
    by (cases "run2 iid 3 3 sched (Pending, Pending, d0)")
  have "(t1, t2, d) \<in> race_states iid item d0"
    using race_run [OF assms race_init, of sched] run by simp
  from race_states_facts [OF assms this] run
  show "case run2 iid 3 3 sched (Pending, Pending, d0) of
            (t1, t2, d) \<Rightarrow>
              (\<exists>q. stock d iid = Some q \<and> 0 \<le> q)
              \<and> (finished t1 \<and> finished t2 \<longrightarrow>
                   stock d iid = Some 2 \<and> (succeeded t1 \<or> succeeded t2))"
    by auto
next
  show "case run2 iid 3 3 [True, True, False] (Pending, Pending, d0) of
            (t1, t2, d) \<Rightarrow> succeeded t1 \<and> refused t2 \<and> stock d iid = Some 2"
    by (subst serial_first [OF assms]) (simp add: stock_def)
next
  show "case run2 iid 3 3 [False, False, True] (Pending, Pending, d0) of
            (t1, t2, d) \<Rightarrow> refused t1 \<and> succeeded t2 \<and> stock d iid = Some 2"
    by (subst serial_second [OF assms]) (simp add: stock_def)
qed

theorem C2_two_checkouts_any_schedule_witness:
  "inventory example_store ''a'' = Some (example_item ''a'' ''Plug'' 100 5)
   \<and> InventoryItem.quantity (example_item ''a'' ''Plug'' 100 5) = 5
   \<and> (case run2 ''a'' 3 3 [True, False, True, False] (Pending, Pending, example_store) of
        (t1, t2, d) \<Rightarrow>
          (\<exists>q. stock d ''a'' = Some q \<and> 0 \<le> q)
          \<and> (finished t1 \<and> finished t2 \<longrightarrow>
               stock d ''a'' = Some 2 \<and> (succeeded t1 \<or> succeeded t2)))
   \<and> finished (fst (run2 ''a'' 3 3 [True, False, True, False] (Pending, Pending, example_store)))
   \<and> finished (fst (snd (run2 ''a'' 3 3 [True, False, True, False] (Pending, Pending, example_store))))"
proof -
  have h1: "inventory example_store ''a'' = Some (example_item ''a'' ''Plug'' 100 5)"
    by (simp add: example_store_def)
  have h2: "InventoryItem.quantity (example_item ''a'' ''Plug'' 100 5) = 5"
    by (simp add: example_item_def)
  have fin: "finished (fst (run2 ''a'' 3 3 [True, False, True, False] (Pending, Pending, example_store)))
   \<and> finished (fst (snd (run2 ''a'' 3 3 [True, False, True, False] (Pending, Pending, example_store))))"
    by (simp add: race_step_facts [OF h1 h2])
  from C2_two_checkouts_any_schedule [OF h1 h2, THEN conjunct1, THEN spec, of "[True, False, True, False]"]
  have "case run2 ''a'' 3 3 [True, False, True, False] (Pending, Pending, example_store) of
        (t1, t2, d) \<Rightarrow>
          (\<exists>q. stock d ''a'' = Some q \<and> 0 \<le> q)
          \<and> (finished t1 \<and> finished t2 \<longrightarrow>
               stock d ''a'' = Some 2 \<and> (succeeded t1 \<or> succeeded t2))" .
  then show ?thesis by (rule conjI [OF h1 conjI [OF h2 conjI [OF _ fin]]])
qed

section \<open>C3: creating a receipt twice for one sale\<close>

text \<open>
  C3 as stated: calling receipt creation twice for the same saleId yields one single
  receipt, the second call returning the existing one. \<open>receiptsDB.add\<close> looks nothing up:
  called twice for sale s1 it inserts two rows, r1 and r2, both referencing s1.
\<close>

theorem C3_second_receipt_for_same_sale_counterexample:
  "create_receipt_twice example_sold_store ''r1'' ''r2'' ''s1'' ''Keke Parts Depot''
      (Some ''12 Market Road'') [] 0 ''Ada'' ''Bob''
     = Inr (example_receipt ''r1'', example_receipt ''r2'',
            example_sold_store\<lparr>receipts := [example_receipt ''r1'', example_receipt ''r2'']\<rparr>)
   \<and> saleId (example_receipt ''r1'') = saleId (example_receipt ''r2'')
   \<and> example_receipt ''r1'' \<noteq> example_receipt ''r2''"
  by (simp add: create_receipt_twice_def receiptsDB_add_def example_sold_store_def
        example_receipt_def Let_def)

text \<open>
  C3 as amended: receipt creation is not idempotent per saleId. Every call of
  \<open>receiptsDB.add\<close> that returns has appended one new receipt row, under the new id, for
  the given saleId, whatever receipts already reference that sale. \<open>getBySaleId\<close> returns
  the new receipt if it is the only one for the sale, and fails once the sale has several.
\<close>

theorem C3_receipt_add_always_inserts:
  assumes "receiptsDB_add d newId sid bname baddr its amount seller buyer = Inr (r, d')"
  shows "receipts d' = receipts d @ [r] \<and> Receipt.id r = newId \<and> saleId r = sid
     \<and> filter (\<lambda>x. saleId x = sid) (receipts d')
          = filter (\<lambda>x. saleId x = sid) (receipts d) @ [r]
     \<and> (filter (\<lambda>x. saleId x = sid) (receipts d) = [] \<longrightarrow> getBySaleId d' sid = Inr (Some r))
     \<and> (filter (\<lambda>x. saleId x = sid) (receipts d) \<noteq> [] \<longrightarrow> getBySaleId d' sid = Inl MultipleRows)"
proof -
  from assms have 1: "receipts d' = receipts d @ [r]" and 2: "Receipt.id r = newId"
    and 3: "saleId r = sid"
    by (auto simp add: receiptsDB_add_def Let_def split: if_splits)
  from 1 3 have 4: "filter (\<lambda>x. saleId x = sid) (receipts d')
          = filter (\<lambda>x. saleId x = sid) (receipts d) @ [r]" by simp
  have 5: "getBySaleId d' sid = Inr (Some r)" if "filter (\<lambda>x. saleId x = sid) (receipts d) = []"
    using 4 that by (simp add: getBySaleId_def)
  have 6: "getBySaleId d' sid = Inl MultipleRows" if "filter (\<lambda>x. saleId x = sid) (receipts d) \<noteq> []"
  proof -
    from that obtain y ys where "filter (\<lambda>x. saleId x = sid) (receipts d) = y # ys"
      by (cases "filter (\<lambda>x. saleId x = sid) (receipts d)") auto
    with 4 show ?thesis by (cases ys) (simp_all add: getBySaleId_def)
  qed
  from 1 2 3 4 5 6 show ?thesis by blast
qed

theorem C3_receipt_add_always_inserts_witness:
  "receiptsDB_add example_sold_store ''r1'' ''s1'' ''Keke Parts Depot'' (Some ''12 Market Road'')
      [] 0 ''Ada'' ''Bob''
     = Inr (example_receipt ''r1'', example_sold_store\<lparr>receipts := [example_receipt ''r1'']\<rparr>)
   \<and> filter (\<lambda>x. saleId x = ''s1'') (receipts example_sold_store) = []
   \<and> getBySaleId (example_sold_store\<lparr>receipts := [example_receipt ''r1'']\<rparr>) ''s1''
        = Inr (Some (example_receipt ''r1''))"
proof -
  have h: "receiptsDB_add example_sold_store ''r1'' ''s1'' ''Keke Parts Depot''
      (Some ''12 Market Road'') [] 0 ''Ada'' ''Bob''
     = Inr (example_receipt ''r1'', example_sold_store\<lparr>receipts := [example_receipt ''r1'']\<rparr>)"
    by (simp add: receiptsDB_add_def example_sold_store_def example_receipt_def Let_def)
  have e: "filter (\<lambda>x. saleId x = ''s1'') (receipts example_sold_store) = []"
    by (simp add: example_sold_store_def)
  from C3_receipt_add_always_inserts [OF h] e
  have "getBySaleId (example_sold_store\<lparr>receipts := [example_receipt ''r1'']\<rparr>) ''s1''
        = Inr (Some (example_receipt ''r1''))" by blast
  with h e show ?thesis by blast
qed

section \<open>C5: what the receipt is stamped with\<close>

text \<open>
  C5: the receipt of a completed sale is stamped with the business name and the business
  address of the settings. The checkout passes the business name only; the address field
  is absent from the object it hands to \<open>receiptsDB.add\<close>, so the stored receipt carries the
  column default. With settings whose address is '12 Market Road', the receipt of the
  example checkout reads '56 Iwofe Road, Rumuopirikom, PHC'.
\<close>

theorem C5_receipt_address_not_from_settings:
  "fst (handleSubmit example_store (Some example_settings) ''s1'' ''r1'' example_single_cart
      '' Ada'' ''Bob  '')
     = Inr (example_sale, example_issued_receipt)
   \<and> AppSettings.businessAddress example_settings = ''12 Market Road''
   \<and> Receipt.businessAddress example_issued_receipt = ''56 Iwofe Road, Rumuopirikom, PHC''
   \<and> Receipt.businessAddress example_issued_receipt
        \<noteq> AppSettings.businessAddress example_settings"
  using example_checkout by (simp add: example_settings_def example_issued_receipt_def)

section \<open>C6: asking for more than the stock\<close>

text \<open>
  C6: when a line of the cart (each item named once) asks for more units than the item
  holds, the decrement is refused and writes nothing, the checkout fails, no sale and no
  receipt row is written, and the item keeps its quantity. With both names filled in, the
  failure is 'Failed to deduct stock' for a line of the cart, which is how the page
  reports insufficient stock.
\<close>

theorem C6_insufficient_stock_refused:
  assumes "l \<in> set cart" and "distinct (map itemId cart)"
    and "inventory d (itemId l) = Some it"
    and "InventoryItem.quantity it < SaleItem.quantity l"
  shows "deductStock d (itemId l) (SaleItem.quantity l) = (None, d)
     \<and> (\<exists>t d'. handleSubmit d settings newSaleId newReceiptId cart seller buyer = (Inl t, d')
            \<and> sales d' = sales d \<and> receipts d' = receipts d
            \<and> inventory d' (itemId l) = Some it
            \<and> (trim seller \<noteq> [] \<and> trim buyer \<noteq> [] \<longrightarrow>
                  (\<exists>c\<in>set cart. t = FailedToDeductStock (itemName c))))"
proof
  from assms(3,4) show "deductStock d (itemId l) (SaleItem.quantity l) = (None, d)"
    by (simp add: deductStock_def getById_def)
next
  from deductAll_insufficient [OF assms]
  obtain c d1 where c: "deductAll d cart = (Some c, d1)" "c \<in> set cart"
    "inventory d1 (itemId l) = Some it" by blast
  have s: "sales d1 = sales d" using deductAll_sales [of d cart] c(1) by simp
  have r: "receipts d1 = receipts d" using deductAll_receipts [of d cart] c(1) by simp
  from assms(1) have ne: "cart \<noteq> []" by auto
  consider "trim seller = []" | "trim seller \<noteq> []" "trim buyer = []"
    | "trim seller \<noteq> []" "trim buyer \<noteq> []" by blast
  then show "\<exists>t d'. handleSubmit d settings newSaleId newReceiptId cart seller buyer = (Inl t, d')
            \<and> sales d' = sales d \<and> receipts d' = receipts d
            \<and> inventory d' (itemId l) = Some it
            \<and> (trim seller \<noteq> [] \<and> trim buyer \<noteq> [] \<longrightarrow>
                  (\<exists>c\<in>set cart. t = FailedToDeductStock (itemName c)))"
  proof cases
    case 1
    with ne assms(3) show ?thesis by (simp add: handleSubmit_def)
  next
    case 2
    with ne assms(3) show ?thesis by (simp add: handleSubmit_def)
  next
    case 3
    with ne c s r have "handleSubmit d settings newSaleId newReceiptId cart seller buyer
        = (Inl (FailedToDeductStock (itemName c)), d1)"
      by (simp add: handleSubmit_def)
    with c s r show ?thesis by blast
  qed
qed

theorem C6_insufficient_stock_refused_witness:
  "example_line ''b'' ''Chain'' 250 3 3 \<in> set example_cart
   \<and> distinct (map itemId example_cart)
   \<and> inventory example_store (itemId (example_line ''b'' ''Chain'' 250 3 3))
        = Some (example_item ''b'' ''Chain'' 250 1)
   \<and> InventoryItem.quantity (example_item ''b'' ''Chain'' 250 1)
        < SaleItem.quantity (example_line ''b'' ''Chain'' 250 3 3)
   \<and> deductStock example_store ''b'' 3 = (None, example_store)
   \<and> (\<exists>t d'. handleSubmit example_store (Some example_settings) ''s1'' ''r1'' example_cart
                 ''Ada'' ''Bob'' = (Inl t, d')
            \<and> sales d' = sales example_store \<and> receipts d' = receipts example_store
            \<and> inventory d' ''b'' = Some (example_item ''b'' ''Chain'' 250 1))"
proof -
  let ?l = "example_line ''b'' ''Chain'' 250 3 3"
  have h1: "?l \<in> set example_cart" by (simp add: example_cart_def)
  have h2: "distinct (map itemId example_cart)" by (simp add: example_cart_def example_line_def)
  have h3: "inventory example_store (itemId ?l) = Some (example_item ''b'' ''Chain'' 250 1)"
    by (simp add: example_store_def example_line_def)
  have h4: "InventoryItem.quantity (example_item ''b'' ''Chain'' 250 1) < SaleItem.quantity ?l"
    by (simp add: example_item_def example_line_def)
  have l: "itemId ?l = ''b''" "SaleItem.quantity ?l = 3" by (simp_all add: example_line_def)
  from C6_insufficient_stock_refused [OF h1 h2 h3 h4, of "Some example_settings" "''s1''" "''r1''" "''Ada''" "''Bob''"]
  have "deductStock example_store ''b'' 3 = (None, example_store)
   \<and> (\<exists>t d'. handleSubmit example_store (Some example_settings) ''s1'' ''r1'' example_cart
                 ''Ada'' ''Bob'' = (Inl t, d')
            \<and> sales d' = sales example_store \<and> receipts d' = receipts example_store
            \<and> inventory d' ''b'' = Some (example_item ''b'' ''Chain'' 250 1))"
    unfolding l by blast
  with h1 h2 h3 h4 show ?thesis by blast
qed

section \<open>C7: validation comes before any write\<close>

text \<open>
  C7: a checkout with an empty cart, or with a seller or buyer name that is empty after
  trimming, is rejected with the matching message (in that order of precedence) and
  leaves the store exactly as it was.
\<close>

theorem C7_validation_before_mutation:
  "(cart = [] \<longrightarrow>
      handleSubmit d settings newSaleId newReceiptId cart seller buyer = (Inl EmptyCart, d))
   \<and> (cart \<noteq> [] \<and> trim seller = [] \<longrightarrow>
      handleSubmit d settings newSaleId newReceiptId cart seller buyer
        = (Inl SellerNameRequired, d))
   \<and> (cart \<noteq> [] \<and> trim seller \<noteq> [] \<and> trim buyer = [] \<longrightarrow>
      handleSubmit d settings newSaleId newReceiptId cart seller buyer
        = (Inl BuyerNameRequired, d))"
  by (simp add: handleSubmit_def)

theorem C7_validation_before_mutation_witness:
  "handleSubmit example_store None ''s1'' ''r1'' [] ''Ada'' ''Bob'' = (Inl EmptyCart, example_store)
   \<and> example_single_cart \<noteq> [] \<and> trim [CHR 0x20, CHR 0x09] = [] \<and> trim ''Ada'' \<noteq> []
   \<and> handleSubmit example_store None ''s1'' ''r1'' example_single_cart [CHR 0x20, CHR 0x09] ''Bob''
        = (Inl SellerNameRequired, example_store)
   \<and> handleSubmit example_store None ''s1'' ''r1'' example_single_cart ''Ada'' [CHR 0x20, CHR 0x09]
        = (Inl BuyerNameRequired, example_store)"
proof -
  have c: "example_single_cart \<noteq> []" by (simp add: example_single_cart_eq)
  have t1: "trim [CHR 0x20, CHR 0x09] = []" by (simp add: trim_def isWhiteSpace_def)
  have t2: "trim ''Ada'' \<noteq> []" by (simp add: trim_def isWhiteSpace_def)
  from C7_validation_before_mutation [of "[]" example_store None "''s1''" "''r1''" "''Ada''" "''Bob''"]
  have 1: "handleSubmit example_store None ''s1'' ''r1'' [] ''Ada'' ''Bob''
             = (Inl EmptyCart, example_store)" by blast
  from C7_validation_before_mutation [of example_single_cart example_store None "''s1''" "''r1''"
                  "[CHR 0x20, CHR 0x09]" "''Bob''"] c t1
  have 2: "handleSubmit example_store None ''s1'' ''r1'' example_single_cart
             [CHR 0x20, CHR 0x09] ''Bob'' = (Inl SellerNameRequired, example_store)" by blast
  from C7_validation_before_mutation [of example_single_cart example_store None "''s1''" "''r1''"
                  "''Ada''" "[CHR 0x20, CHR 0x09]"] c t1 t2
  have 3: "handleSubmit example_store None ''s1'' ''r1'' example_single_cart
             ''Ada'' [CHR 0x20, CHR 0x09] = (Inl BuyerNameRequired, example_store)" by blast
  from 1 2 3 c t1 t2 show ?thesis by blast
qed

section \<open>C8: adding a line to the cart\<close>

text \<open>
  C8: adding a positive quantity of a known item. If the item is already in the cart, its
  (first and only) line gets the quantity added and the total recomputed, provided the
  new quantity does not exceed the availability recorded on the line; otherwise the cart
  is unchanged and 'Insufficient Stock' is shown. If the item is not in the cart, a new
  line is appended, provided the quantity does not exceed the item's known stock;
  otherwise the cart is unchanged and 'Insufficient Stock' is shown.
\<close>

theorem C8_addToCart_bound_check:
  assumes "0 < qty"
  shows "((\<exists>c\<in>set cart. itemId c = InventoryItem.id sel) \<longrightarrow>
           (\<exists>i<length cart. itemId (cart ! i) = InventoryItem.id sel
              \<and> (\<forall>j<i. itemId (cart ! j) \<noteq> InventoryItem.id sel)
              \<and> (SaleItem.quantity (cart ! i) + qty \<le> availableQty (cart ! i) \<longrightarrow>
                   addToCart cart (Some sel) qty =
                     (cart[i := (cart ! i)\<lparr>SaleItem.quantity := SaleItem.quantity (cart ! i) + qty,
                                   total := of_int (SaleItem.quantity (cart ! i) + qty)
                                            * SaleItem.unitPrice (cart ! i)\<rparr>],
                      Some AddedToCart))
              \<and> (availableQty (cart ! i) < SaleItem.quantity (cart ! i) + qty \<longrightarrow>
                   addToCart cart (Some sel) qty = (cart, Some InsufficientStockToast))))
     \<and> ((\<forall>c\<in>set cart. itemId c \<noteq> InventoryItem.id sel) \<longrightarrow>
           (qty \<le> InventoryItem.quantity sel \<longrightarrow>
              addToCart cart (Some sel) qty =
                (cart @ [\<lparr>itemId = InventoryItem.id sel, itemName = name sel,
                          SaleItem.quantity = qty,
                          SaleItem.unitPrice = InventoryItem.unitPrice sel,
                          total = of_int qty * InventoryItem.unitPrice sel,
                          availableQty = InventoryItem.quantity sel\<rparr>],
                 Some AddedToCart))
           \<and> (InventoryItem.quantity sel < qty \<longrightarrow>
                addToCart cart (Some sel) qty = (cart, Some InsufficientStockToast)))"
proof (intro conjI impI)
  assume "\<exists>c\<in>set cart. itemId c = InventoryItem.id sel"
  then have "findIndex (\<lambda>c. itemId c = InventoryItem.id sel) cart \<noteq> None"
    by (simp add: findIndex_None)
  then obtain i where i: "findIndex (\<lambda>c. itemId c = InventoryItem.id sel) cart = Some i" by blast
  from findIndex_Some [OF i] have props: "i < length cart" "itemId (cart ! i) = InventoryItem.id sel"
    "\<forall>j<i. itemId (cart ! j) \<noteq> InventoryItem.id sel" by simp_all
  have ok: "addToCart cart (Some sel) qty =
                     (cart[i := (cart ! i)\<lparr>SaleItem.quantity := SaleItem.quantity (cart ! i) + qty,
                                   total := of_int (SaleItem.quantity (cart ! i) + qty)
                                            * SaleItem.unitPrice (cart ! i)\<rparr>],
                      Some AddedToCart)"
    if "SaleItem.quantity (cart ! i) + qty \<le> availableQty (cart ! i)"
    using that i assms by (simp add: addToCart_def Let_def)
  have bad: "addToCart cart (Some sel) qty = (cart, Some InsufficientStockToast)"
    if "availableQty (cart ! i) < SaleItem.quantity (cart ! i) + qty"
    using that i assms by (simp add: addToCart_def Let_def)
  from props ok bad
  show "\<exists>i<length cart. itemId (cart ! i) = InventoryItem.id sel
              \<and> (\<forall>j<i. itemId (cart ! j) \<noteq> InventoryItem.id sel)
              \<and> (SaleItem.quantity (cart ! i) + qty \<le> availableQty (cart ! i) \<longrightarrow>
                   addToCart cart (Some sel) qty =
                     (cart[i := (cart ! i)\<lparr>SaleItem.quantity := SaleItem.quantity (cart ! i) + qty,
                                   total := of_int (SaleItem.quantity (cart ! i) + qty)
                                            * SaleItem.unitPrice (cart ! i)\<rparr>],
                      Some AddedToCart))
              \<and> (availableQty (cart ! i) < SaleItem.quantity (cart ! i) + qty \<longrightarrow>
                   addToCart cart (Some sel) qty = (cart, Some InsufficientStockToast))"
    by blast
next
  assume "\<forall>c\<in>set cart. itemId c \<noteq> InventoryItem.id sel" and "qty \<le> InventoryItem.quantity sel"
  then have "findIndex (\<lambda>c. itemId c = InventoryItem.id sel) cart = None"
    by (simp add: findIndex_None)
  with assms \<open>qty \<le> InventoryItem.quantity sel\<close>
  show "addToCart cart (Some sel) qty =
                (cart @ [\<lparr>itemId = InventoryItem.id sel, itemName = name sel,
                          SaleItem.quantity = qty,
                          SaleItem.unitPrice = InventoryItem.unitPrice sel,
                          total = of_int qty * InventoryItem.unitPrice sel,
                          availableQty = InventoryItem.quantity sel\<rparr>],
                 Some AddedToCart)"
    by (simp add: addToCart_def)
next
  assume "\<forall>c\<in>set cart. itemId c \<noteq> InventoryItem.id sel" and "InventoryItem.quantity sel < qty"
  then have "findIndex (\<lambda>c. itemId c = InventoryItem.id sel) cart = None"
    by (simp add: findIndex_None)
  with assms \<open>InventoryItem.quantity sel < qty\<close>
  show "addToCart cart (Some sel) qty = (cart, Some InsufficientStockToast)"
    by (simp add: addToCart_def)
qed

theorem C8_addToCart_bound_check_witness:
  "(0::int) < 2
   \<and> addToCart [] (Some (example_item ''a'' ''Plug'' 100 5)) 2
        = ([example_line ''a'' ''Plug'' 100 2 5], Some AddedToCart)
   \<and> addToCart [example_line ''a'' ''Plug'' 100 2 5] (Some (example_item ''a'' ''Plug'' 100 5)) 2
        = ([example_line ''a'' ''Plug'' 100 4 5], Some AddedToCart)
   \<and> addToCart [example_line ''a'' ''Plug'' 100 4 5] (Some (example_item ''a'' ''Plug'' 100 5)) 2
        = ([example_line ''a'' ''Plug'' 100 4 5], Some InsufficientStockToast)"
proof -
  let ?sel = "example_item ''a'' ''Plug'' 100 5"
  have pos: "(0::int) < 2" by simp
  have sel: "InventoryItem.id ?sel = ''a''" "InventoryItem.quantity ?sel = 5"
    "name ?sel = ''Plug''" "InventoryItem.unitPrice ?sel = 100"
    by (simp_all add: example_item_def)
  from C8_addToCart_bound_check [OF pos, of "[]" ?sel]
  have 1: "addToCart [] (Some ?sel) 2 = ([example_line ''a'' ''Plug'' 100 2 5], Some AddedToCart)"
    by (simp add: sel example_line_def)
  from C8_addToCart_bound_check [OF pos, of "[example_line ''a'' ''Plug'' 100 2 5]" ?sel]
  have 2: "addToCart [example_line ''a'' ''Plug'' 100 2 5] (Some ?sel) 2
        = ([example_line ''a'' ''Plug'' 100 4 5], Some AddedToCart)"
    by (simp add: sel example_line_def)
  from C8_addToCart_bound_check [OF pos, of "[example_line ''a'' ''Plug'' 100 4 5]" ?sel]
  have 3: "addToCart [example_line ''a'' ''Plug'' 100 4 5] (Some ?sel) 2
        = ([example_line ''a'' ''Plug'' 100 4 5], Some InsufficientStockToast)"
    by (simp add: sel example_line_def)
  from pos 1 2 3 show ?thesis by blast
qed

section \<open>C9: stored names are trimmed\<close>

text \<open>
  C9: after a completed checkout the sale row and the receipt row are in the store, and
  the seller and buyer names of both are the trimmed inputs: non-empty, with no white
  space at either end.
\<close>

theorem C9_names_stored_trimmed:
  assumes "handleSubmit d settings newSaleId newReceiptId cart seller buyer
             = (Inr (sale, receipt), d')"
  shows "sale \<in> set (sales d') \<and> receipt \<in> set (receipts d')
     \<and> Sale.sellerName sale = trim seller \<and> Sale.buyerName sale = trim buyer
     \<and> Receipt.sellerName receipt = trim seller \<and> Receipt.buyerName receipt = trim buyer
     \<and> trim seller \<noteq> [] \<and> trim buyer \<noteq> []
     \<and> \<not> isWhiteSpace (hd (trim seller)) \<and> \<not> isWhiteSpace (last (trim seller))
     \<and> \<not> isWhiteSpace (hd (trim buyer)) \<and> \<not> isWhiteSpace (last (trim buyer))"
proof -
  from handleSubmit_success [OF assms]
  have ne: "trim seller \<noteq> []" "trim buyer \<noteq> []"
    and rows: "sales d' = sales d @ [sale]" "receipts d' = receipts d @ [receipt]"
    and names: "Sale.sellerName sale = trim seller" "Sale.buyerName sale = trim buyer"
      "Receipt.sellerName receipt = trim seller" "Receipt.buyerName receipt = trim buyer"
    by simp_all
  from trim_ends [OF ne(1)] trim_ends [OF ne(2)] ne rows names show ?thesis by simp
qed

theorem C9_names_stored_trimmed_witness:
  "handleSubmit example_store (Some example_settings) ''s1'' ''r1'' example_single_cart
       '' Ada'' ''Bob  '' = (Inr (example_sale, example_issued_receipt), snd example_attempt)
   \<and> Sale.sellerName example_sale = trim '' Ada'' \<and> trim '' Ada'' = ''Ada''
   \<and> Receipt.buyerName example_issued_receipt = trim ''Bob  '' \<and> trim ''Bob  '' = ''Bob''
   \<and> \<not> isWhiteSpace (hd (trim '' Ada'')) \<and> \<not> isWhiteSpace (last (trim ''Bob  ''))"
proof -
  have t: "trim '' Ada'' = ''Ada''" "trim ''Bob  '' = ''Bob''"
    by (simp_all add: trim_def isWhiteSpace_def)
  from C9_names_stored_trimmed [OF example_attempt_eq] example_attempt_eq t show ?thesis by blast
qed

section \<open>C10: checkout without settings\<close>

text \<open>
  C10: with no settings, or settings whose business name is empty, a checkout that passes
  validation, finds enough stock for every line and draws fresh ids completes, and the
  receipt it stores carries the business name 'Keke Spare Parts'.
\<close>

theorem C10_missing_settings_fallback:
  assumes "settings = None \<or> (\<exists>s. settings = Some s \<and> AppSettings.businessName s = [])"
    and "cart \<noteq> []" and "trim seller \<noteq> []" and "trim buyer \<noteq> []"
    and "fst (deductAll d cart) = None"
    and "newSaleId \<notin> set (map Sale.id (sales d))"
    and "newReceiptId \<notin> set (map Receipt.id (receipts d))"
  shows "\<exists>sale receipt d'.
           handleSubmit d settings newSaleId newReceiptId cart seller buyer
             = (Inr (sale, receipt), d')
           \<and> Receipt.businessName receipt = ''Keke Spare Parts''
           \<and> receipt \<in> set (receipts d') \<and> saleId receipt = Sale.id sale"
proof -
  from handleSubmit_succeeds [OF assms(2-7)] obtain sale receipt d' where
    ok: "handleSubmit d settings newSaleId newReceiptId cart seller buyer
             = (Inr (sale, receipt), d')" by blast
  from assms(1) have fb: "businessName_or_fallback settings = ''Keke Spare Parts''"
    by (auto simp add: businessName_or_fallback_def)
  from handleSubmit_success [OF ok] fb
  have "Receipt.businessName receipt = ''Keke Spare Parts''"
    "receipt \<in> set (receipts d')" "saleId receipt = Sale.id sale" by simp_all
  with ok show ?thesis by blast
qed

theorem C10_missing_settings_fallback_witness:
  "example_single_cart \<noteq> [] \<and> trim ''Ada'' \<noteq> [] \<and> trim ''Bob'' \<noteq> []
   \<and> fst (deductAll example_store example_single_cart) = None
   \<and> ''s1'' \<notin> set (map Sale.id (sales example_store))
   \<and> ''r1'' \<notin> set (map Receipt.id (receipts example_store))
   \<and> (\<exists>sale receipt d'.
         handleSubmit example_store None ''s1'' ''r1'' example_single_cart ''Ada'' ''Bob''
           = (Inr (sale, receipt), d')
         \<and> Receipt.businessName receipt = ''Keke Spare Parts''
         \<and> receipt \<in> set (receipts d') \<and> saleId receipt = Sale.id sale)"
proof -
  have h2: "example_single_cart \<noteq> []" by (simp add: example_single_cart_eq)
  have h3: "trim ''Ada'' \<noteq> []" and h4: "trim ''Bob'' \<noteq> []"
    by (simp_all add: trim_def isWhiteSpace_def)
  have h5: "fst (deductAll example_store example_single_cart) = None"
    by (simp add: example_single_cart_eq example_line_def example_store_def example_item_def
          deductStock_def getById_def Let_def)
  have h6: "''s1'' \<notin> set (map Sale.id (sales example_store))"
    and h7: "''r1'' \<notin> set (map Receipt.id (receipts example_store))"
    by (simp_all add: example_store_def)
  from C10_missing_settings_fallback [OF _ h2 h3 h4 h5 h6 h7, of None] h2 h3 h4 h5 h6 h7 show ?thesis by blast
qed

end
